theory Spec2Isabelle
  imports Complex_Main
begin

section \<open>Values of the runtime\<close>

text \<open>
  The two services are TypeScript classes running on a JavaScript engine. The embedding
  keeps the following conventions.
  \<^item> A \<^verbatim>\<open>number\<close> is a binary64 double. A finite double is a rational number, so
    a number that the code computes with (a quantity, an amount, a number inside a
    payload) is a \<^typ>\<open>rat\<close>, and arithmetic on it rounds to the nearest double
    (\<open>binary64\<close> below). A number that the code only counts or compares (an id, the
    counter, an age) is an \<^typ>\<open>int\<close>; the doubles hold every integer of magnitude up
    to \<open>2^53\<close> exactly, and each statement that depends on such a number being exact
    carries this bound as a hypothesis.
  \<^item> A string is a \<^typ>\<open>string\<close> holding the UTF-8 bytes of the source text. The only
    string operation of the code that looks inside a string splits at the ASCII comma,
    a byte that occurs in no multi-byte sequence.
  \<^item> A \<^verbatim>\<open>throw\<close> is the left injection of a sum, a \<^verbatim>\<open>return\<close> the right one.
  \<^item> An object that is inspected by key (\<^verbatim>\<open>in\<close>, \<^verbatim>\<open>obj[key]\<close>,
    \<^verbatim>\<open>Object.fromEntries\<close>) is the list of its own properties in property order.
\<close>

datatype jsval =
    JUndefined
  | JNull
  | JBool bool
  | JNum rat
  | JStr string
  | JArr "jsval list"
  | JBuiltin string

type_synonym object = "(string \<times> jsval) list"

datatype Date = Date int

datatype exception =
    BadRequestException string
  | NotFoundException string

definition returns :: "exception + 'a \<Rightarrow> bool" where
  "returns r = (case r of Inl e \<Rightarrow> False | Inr v \<Rightarrow> True)"

subsection \<open>Rounding to a double\<close>

text \<open>
  The result of an arithmetic operation on doubles is the double nearest to the exact
  result, a tie going to the neighbour with the even significand. A double has 53
  significant bits: around a number whose integer part has \<open>k\<close> binary digits the
  doubles are the multiples of \<open>2^(k - 53)\<close>. The function \<open>binary64\<close> rounds a
  rational to this grid. It is the engine's rounding for \<open>1 \<le> \<bar>x\<bar> < 2^1023\<close> (and
  for zero); smaller and larger magnitudes, where doubles become subnormal or infinite,
  are outside every statement below.
\<close>

fun bit_length :: "nat \<Rightarrow> nat" where
  "bit_length n = (if n = 0 then 0 else Suc (bit_length (n div 2)))"

declare bit_length.simps [simp del]

definition round_half_even :: "rat \<Rightarrow> int" where
  "round_half_even x =
    (let q = \<lfloor>x\<rfloor>; r = x - of_int q in
     if r < 1 / 2 then q
     else if 1 / 2 < r then q + 1
     else if even q then q else q + 1)"

definition ulp :: "rat \<Rightarrow> rat" where
  "ulp x =
    (let k = bit_length (nat \<lfloor>\<bar>x\<bar>\<rfloor>) in
     if 53 \<le> k then 2 ^ (k - 53) else 1 / 2 ^ (53 - k))"

definition binary64 :: "rat \<Rightarrow> rat" where
  "binary64 x = of_int (round_half_even (x / ulp x)) * ulp x"

section \<open>The order service\<close>

subsection \<open>Data\<close>

text \<open>
  \<^verbatim>\<open>CreateOrderDTO\<close> (create-order.dto.ts) and the interface \<^verbatim>\<open>Order\<close>
  (order.interface.ts). Both name their fields \<^verbatim>\<open>products\<close>, \<^verbatim>\<open>quantity\<close>
  and \<^verbatim>\<open>shipping_address\<close>; the fields of \<^verbatim>\<open>Order\<close> carry the prefix
  \<open>order_\<close> here to keep the two records apart.

  The static type of \<^verbatim>\<open>products\<close> is \<^verbatim>\<open>number[]\<close>, but the decorators check
  only that it is an array (\<^verbatim>\<open>IsArray\<close>, \<^verbatim>\<open>ArrayMinSize\<close>) and the service
  copies it without looking inside, so at run time its elements are arbitrary values.
  \<^verbatim>\<open>IsNumber\<close> admits every finite number as \<^verbatim>\<open>quantity\<close>, fractions included.
\<close>

record CreateOrderDTO =
  products :: "jsval list"
  quantity :: rat
  shipping_address :: string

record Order =
  order_id :: int
  order_products :: "jsval list"
  order_quantity :: rat
  order_shipping_address :: string
  total_amount :: rat
  created_at :: Date

text \<open>The private state of \<^verbatim>\<open>OrdersService\<close>: the array and the counter.\<close>

record OrdersService =
  orders :: "Order list"
  currentId :: int

definition OrdersService_init :: OrdersService where
  "OrdersService_init = \<lparr>orders = [], currentId = 0\<rparr>"

subsection \<open>createOrder\<close>

text \<open>
  The message of the \<^verbatim>\<open>BadRequestException\<close> thrown by the handler
  (36 bytes of UTF-8).
\<close>

definition create_failed_message :: string where
  "create_failed_message =
    [CHR 0xE6, CHR 0xB3, CHR 0xA8, CHR 0xE6, CHR 0x96, CHR 0x87, CHR 0xE3, CHR 0x81, CHR 0xAE,
     CHR 0xE4, CHR 0xBD, CHR 0x9C, CHR 0xE6, CHR 0x88, CHR 0x90, CHR 0xE3, CHR 0x81, CHR 0xAB,
     CHR 0xE5, CHR 0xA4, CHR 0xB1, CHR 0xE6, CHR 0x95, CHR 0x97, CHR 0xE3, CHR 0x81, CHR 0x97,
     CHR 0xE3, CHR 0x81, CHR 0xBE, CHR 0xE3, CHR 0x81, CHR 0x97, CHR 0xE3, CHR 0x81, CHR 0x9F]"

text \<open>
  \<^verbatim>\<open>createOrder\<close> takes the service state, the instant \<^verbatim>\<open>new Date()\<close> would
  read, and the argument. The function is \<^verbatim>\<open>async\<close> without any \<^verbatim>\<open>await\<close>:
  its body runs to completion before any other call starts, so a call is one step on
  the state.

  The object literal is evaluated property by property: \<^verbatim>\<open>++this.currentId\<close> comes
  first and writes the counter. The remaining properties read the argument; the one way
  such a read throws inside the \<^verbatim>\<open>try\<close> block is an argument that is
  \<^verbatim>\<open>null\<close> or \<^verbatim>\<open>undefined\<close> at run time (the static type excludes it, the
  engine does not). That case is \<open>None\<close>: the handler turns the error into a
  \<^verbatim>\<open>BadRequestException\<close>, nothing is pushed, and the counter stays advanced.

  The product \<^verbatim>\<open>quantity * 1000\<close> is a multiplication of doubles, hence rounded.
  The counter holds an integer; \<^verbatim>\<open>++\<close> adds one exactly as long as the result is
  at most \<open>2^53\<close> (from there on the sum rounds back to \<open>2^53\<close>). The model adds one
  in \<^typ>\<open>int\<close>, which is the code's counter on this range. Likewise
  \<^verbatim>\<open>push\<close> appends as long as the array holds fewer than \<open>2^32 - 1\<close> elements,
  the most an array can hold, and the model appends always. The statements about a start
  state that is not the fresh service keep the counter and the array within these ranges
  by hypothesis.
\<close>

definition createOrder ::
  "OrdersService \<Rightarrow> Date \<Rightarrow> CreateOrderDTO option \<Rightarrow> (exception + Order) \<times> OrdersService" where
  "createOrder this now createOrderDto =
    (let this1 = this\<lparr>currentId := currentId this + 1\<rparr> in
     case createOrderDto of
       None \<Rightarrow> (Inl (BadRequestException create_failed_message), this1)
     | Some dto \<Rightarrow>
         (let order = \<lparr>order_id = currentId this1,
                       order_products = products dto,
                       order_quantity = quantity dto,
                       order_shipping_address = shipping_address dto,
                       total_amount = binary64 (quantity dto * 1000),
                       created_at = now\<rparr>
          in (Inr order, this1\<lparr>orders := orders this1 @ [order]\<rparr>)))"

text \<open>
  A sequence of calls on one service, each with its instant and argument: the results in
  call order and the final state.
\<close>

fun createOrders ::
  "OrdersService \<Rightarrow> (Date \<times> CreateOrderDTO option) list \<Rightarrow>
     (exception + Order) list \<times> OrdersService" where
  "createOrders this [] = ([], this)"
| "createOrders this ((now, dto) # calls) =
    (let (r, this1) = createOrder this now dto;
         (rs, this2) = createOrders this1 calls
     in (r # rs, this2))"

text \<open>The records that the successful calls returned, in call order.\<close>

fun returned :: "(exception + 'a) list \<Rightarrow> 'a list" where
  "returned [] = []"
| "returned (Inl e # rs) = returned rs"
| "returned (Inr v # rs) = v # returned rs"

section \<open>The user service\<close>

subsection \<open>Data\<close>

text \<open>
  \<^verbatim>\<open>UserProfileDto\<close> (user-profile.dto.ts) declares five fields, all required, in the
  order \<^verbatim>\<open>id, name, email, age, preferences\<close>. The field \<^verbatim>\<open>id\<close> is
  \<open>user_id\<close> here, since \<open>id\<close> is the identity function of HOL.
\<close>

record UserProfileDto =
  user_id :: int
  name :: string
  email :: string
  age :: int
  preferences :: "string list"

text \<open>
  The array \<^verbatim>\<open>users\<close> of \<^verbatim>\<open>UsersService\<close>, with its one literal. The name and
  the two preferences are the UTF-8 bytes of the source text. The array is
  \<^verbatim>\<open>private readonly\<close> and no method writes to it; the functions below take it as
  their first argument and return no state.
\<close>

definition users_initial :: "UserProfileDto list" where
  "users_initial =
    [\<lparr>user_id = 1,
      name = [CHR 0xE7, CHR 0x94, CHR 0xB0, CHR 0xE4, CHR 0xB8, CHR 0xAD,
              CHR 0xE5, CHR 0xA4, CHR 0xAA, CHR 0xE9, CHR 0x83, CHR 0x8E],
      email = ''tanaka@example.com'',
      age = 30,
      preferences = [[CHR 0xE8, CHR 0xAA, CHR 0xAD, CHR 0xE6, CHR 0x9B, CHR 0xB8],
                     [CHR 0xE6, CHR 0x98, CHR 0xA0, CHR 0xE7, CHR 0x94, CHR 0xBB]]\<rparr>]"

subsection \<open>A user as an object\<close>

text \<open>
  The own properties of a user object, in the order in which the literal and the class
  declare them.
\<close>

definition own_properties :: "UserProfileDto \<Rightarrow> object" where
  "own_properties user =
    [(''id'', JNum (of_int (user_id user))),
     (''name'', JStr (name user)),
     (''email'', JStr (email user)),
     (''age'', JNum (of_int (age user))),
     (''preferences'', JArr (map JStr (preferences user)))]"

text \<open>
  A user object is a plain object, so its prototype is \<^verbatim>\<open>Object.prototype\<close>. These
  are the property names that ECMAScript (with its Annex B) defines there; each is
  inherited by every plain object.
\<close>

definition Object_prototype_keys :: "string list" where
  "Object_prototype_keys =
    [''constructor'', ''__defineGetter__'', ''__defineSetter__'', ''hasOwnProperty'',
     ''__lookupGetter__'', ''__lookupSetter__'', ''isPrototypeOf'', ''propertyIsEnumerable'',
     ''toString'', ''valueOf'', ''__proto__'', ''toLocaleString'']"

text \<open>
  \<^verbatim>\<open>field in user\<close>: the operator \<^verbatim>\<open>in\<close> looks for the key among the own
  properties and then along the prototype chain.
\<close>

definition has_property :: "UserProfileDto \<Rightarrow> string \<Rightarrow> bool" where
  "has_property user field =
    (field \<in> set (map fst (own_properties user)) \<or> field \<in> set Object_prototype_keys)"

text \<open>
  \<^verbatim>\<open>user[field]\<close>: the own property if there is one, else the inherited one (the
  built-in of that name), else \<^verbatim>\<open>undefined\<close>.
\<close>

definition get_property :: "UserProfileDto \<Rightarrow> string \<Rightarrow> jsval" where
  "get_property user field =
    (case map_of (own_properties user) field of
       Some v \<Rightarrow> v
     | None \<Rightarrow> if field \<in> set Object_prototype_keys then JBuiltin field else JUndefined)"

text \<open>
  \<^verbatim>\<open>Object.fromEntries\<close> starts from the empty object and defines one property per
  entry, in order. Defining a key that the object has already keeps the key's position and
  replaces its value; a new key goes to the end. (Keys that are array indices would be
  enumerated first; no property of a user object or of \<^verbatim>\<open>Object.prototype\<close> is one.)
\<close>

definition set_property :: "object \<Rightarrow> string \<Rightarrow> jsval \<Rightarrow> object" where
  "set_property obj k v =
    (if k \<in> set (map fst obj)
     then map (\<lambda>(k', v'). if k' = k then (k', v) else (k', v')) obj
     else obj @ [(k, v)])"

definition fromEntries :: "(string \<times> jsval) list \<Rightarrow> object" where
  "fromEntries entries = foldl (\<lambda>obj (k, v). set_property obj k v) [] entries"

subsection \<open>The message of the exception\<close>

text \<open>
  The template literal renders the number \<^verbatim>\<open>id\<close>. For an integer of magnitude
  below \<open>2^53\<close> the rendering is the decimal digits, with a leading minus sign when it
  is negative (the route's \<^verbatim>\<open>ParseIntPipe\<close> accepts a sign). \<open>show_int\<close> is this
  rendering; larger numbers, which the engine rounds to a double and from \<open>10^21\<close>
  on prints with an exponent, are outside every statement about the message.
\<close>

definition digit :: "nat \<Rightarrow> char" where
  "digit d = ''0123456789'' ! d"

fun show_nat :: "nat \<Rightarrow> string" where
  "show_nat n = (if n < 10 then [digit n] else show_nat (n div 10) @ [digit (n mod 10)])"

declare show_nat.simps [simp del]

definition show_int :: "int \<Rightarrow> string" where
  "show_int i = (if i < 0 then CHR ''-'' # show_nat (nat (- i)) else show_nat (nat i))"

text \<open>The text after the number in the message (39 bytes of UTF-8).\<close>

definition not_found_suffix :: string where
  "not_found_suffix =
    [CHR 0xE3, CHR 0x81, CHR 0xAE, CHR 0xE3, CHR 0x83, CHR 0xA6, CHR 0xE3, CHR 0x83, CHR 0xBC,
     CHR 0xE3, CHR 0x82, CHR 0xB6, CHR 0xE3, CHR 0x83, CHR 0xBC, CHR 0xE3, CHR 0x81, CHR 0x8C,
     CHR 0xE8, CHR 0xA6, CHR 0x8B, CHR 0xE3, CHR 0x81, CHR 0xA4, CHR 0xE3, CHR 0x81, CHR 0x8B,
     CHR 0xE3, CHR 0x82, CHR 0x8A, CHR 0xE3, CHR 0x81, CHR 0xBE, CHR 0xE3, CHR 0x81, CHR 0x9B,
     CHR 0xE3, CHR 0x82, CHR 0x93]"

definition not_found_message :: "int \<Rightarrow> string" where
  "not_found_message i = ''ID: '' @ show_int i @ not_found_suffix"

subsection \<open>findOne\<close>

text \<open>
  \<^verbatim>\<open>Array.prototype.find\<close> is \<^const>\<open>List.find\<close>: the first element that satisfies
  the predicate, or none. The parameters \<^verbatim>\<open>id\<close> and \<^verbatim>\<open>fields\<close> are \<open>i\<close> and
  \<open>fs\<close>. With no user the method throws; with a non-empty list of fields it builds a new object from the fields that pass the \<^verbatim>\<open>in\<close> test, in the order of
  the list; with an empty list it returns the user object itself.
\<close>

definition findOne :: "UserProfileDto list \<Rightarrow> int \<Rightarrow> string list \<Rightarrow> exception + object" where
  "findOne users i fs =
    (case List.find (\<lambda>user. user_id user = i) users of
       None \<Rightarrow> Inl (NotFoundException (not_found_message i))
     | Some user \<Rightarrow>
         if length fs > 0
         then Inr (fromEntries
                (map (\<lambda>field. (field, get_property user field))
                  (filter (\<lambda>field. has_property user field) fs)))
         else Inr (own_properties user))"

subsection \<open>getProfile\<close>

text \<open>
  \<^verbatim>\<open>String.prototype.split\<close> with a one-character separator: the pieces between the
  separators, empty pieces included, so that the empty string gives one empty piece.
\<close>

fun split_on :: "char \<Rightarrow> string \<Rightarrow> string list" where
  "split_on c [] = [[]]"
| "split_on c (x # xs) =
    (if x = c then [] # split_on c xs
     else (case split_on c xs of
             [] \<Rightarrow> [[x]]
           | w # ws \<Rightarrow> (x # w) # ws))"

definition validFields :: "string list" where
  "validFields = [''id'', ''name'', ''email'', ''age'', ''preferences'']"

text \<open>
  The query parameter \<^verbatim>\<open>fields\<close> is optional (\<open>None\<close> when absent). The conditional tests the
  string for truthiness, and the empty string is falsy.
\<close>

definition getProfile :: "UserProfileDto list \<Rightarrow> int \<Rightarrow> string option \<Rightarrow> exception + object" where
  "getProfile users i query =
    (let fieldArray =
       (case query of
          None \<Rightarrow> []
        | Some s \<Rightarrow>
            if s = [] then []
            else filter (\<lambda>field. field \<in> set validFields) (split_on CHR '','' s))
     in findOne users i fieldArray)"

subsection \<open>Orders of keys\<close>

text \<open>
  The property order that the record type declares, as a predicate on an object: its keys
  are the declared field names that it has, in declared order.
\<close>

definition in_declared_order :: "object \<Rightarrow> bool" where
  "in_declared_order obj =
    (map fst obj = filter (\<lambda>k. k \<in> set (map fst obj)) validFields)"

text \<open>The names of a list, each kept at its first occurrence.\<close>

definition first_occurrences :: "'a list \<Rightarrow> 'a list" where
  "first_occurrences xs = rev (remdups (rev xs))"

section \<open>Validation and lookup on the order store\<close>

text \<open>
  The repository declares the rules of a creation payload as decorators on
  \<^verbatim>\<open>CreateOrderDTO\<close> and leaves the checking to a validation pipe that its
  \<^verbatim>\<open>main.ts\<close> installs; the routine that checks is not among the sources, and
  \<^verbatim>\<open>OrdersService\<close> has no method that reads its array. Both are modelled from
  the specification, over the rule table and the state of the sources.
\<close>

subsection \<open>The rule table\<close>

datatype field_type = NumberType | StringType | ArrayType

record FieldRule =
  field :: string
  required :: bool
  ftype :: field_type
  predicate :: "jsval \<Rightarrow> bool"
  reason :: string

type_synonym FieldSpec = "FieldRule list"

text \<open>
  A raw payload is the parsed body of the request: an object read only by key, hence a
  map from keys to values.
\<close>

type_synonym payload = "string \<rightharpoonup> jsval"

datatype violation =
    MISSING_FIELD string
  | INVALID_VALUE string string

text \<open>
  The messages that the decorators \<^verbatim>\<open>ArrayMinSize\<close> and \<^verbatim>\<open>Min\<close> carry (43 bytes
  of UTF-8 each).
\<close>

definition products_message :: string where
  "products_message =
    [CHR 0xE5, CHR 0x95, CHR 0x86, CHR 0xE5, CHR 0x93, CHR 0x81, CHR 0xE3, CHR 0x82, CHR 0x92,
     CHR 0x31, CHR 0xE3, CHR 0x81, CHR 0xA4, CHR 0xE4, CHR 0xBB, CHR 0xA5, CHR 0xE4, CHR 0xB8,
     CHR 0x8A, CHR 0xE9, CHR 0x81, CHR 0xB8, CHR 0xE6, CHR 0x8A, CHR 0x9E, CHR 0xE3, CHR 0x81,
     CHR 0x97, CHR 0xE3, CHR 0x81, CHR 0xA6, CHR 0xE3, CHR 0x81, CHR 0x8F, CHR 0xE3, CHR 0x81,
     CHR 0xA0, CHR 0xE3, CHR 0x81, CHR 0x95, CHR 0xE3, CHR 0x81, CHR 0x84]"

definition quantity_message :: string where
  "quantity_message =
    [CHR 0xE6, CHR 0x95, CHR 0xB0, CHR 0xE9, CHR 0x87, CHR 0x8F, CHR 0xE3, CHR 0x81, CHR 0xAF,
     CHR 0x31, CHR 0xE4, CHR 0xBB, CHR 0xA5, CHR 0xE4, CHR 0xB8, CHR 0x8A, CHR 0xE3, CHR 0x81,
     CHR 0xA7, CHR 0xE6, CHR 0x8C, CHR 0x87, CHR 0xE5, CHR 0xAE, CHR 0x9A, CHR 0xE3, CHR 0x81,
     CHR 0x97, CHR 0xE3, CHR 0x81, CHR 0xA6, CHR 0xE3, CHR 0x81, CHR 0x8F, CHR 0xE3, CHR 0x81,
     CHR 0xA0, CHR 0xE3, CHR 0x81, CHR 0x95, CHR 0xE3, CHR 0x81, CHR 0x84]"

text \<open>
  The decorators of \<^verbatim>\<open>CreateOrderDTO\<close> as a table: \<^verbatim>\<open>IsArray\<close> with
  \<^verbatim>\<open>ArrayMinSize(1)\<close> on \<^verbatim>\<open>products\<close>, \<^verbatim>\<open>IsNumber\<close> with \<^verbatim>\<open>Min(1)\<close> on
  \<^verbatim>\<open>quantity\<close>, \<^verbatim>\<open>IsString\<close> on \<^verbatim>\<open>shipping_address\<close>. No field is marked
  optional.
\<close>

definition products_rule :: FieldRule where
  "products_rule =
    \<lparr>field = ''products'', required = True, ftype = ArrayType,
     predicate = (\<lambda>v. case v of JArr xs \<Rightarrow> 1 \<le> length xs | _ \<Rightarrow> False),
     reason = products_message\<rparr>"

definition quantity_rule :: FieldRule where
  "quantity_rule =
    \<lparr>field = ''quantity'', required = True, ftype = NumberType,
     predicate = (\<lambda>v. case v of JNum n \<Rightarrow> 1 \<le> n | _ \<Rightarrow> False),
     reason = quantity_message\<rparr>"

definition shipping_address_rule :: FieldRule where
  "shipping_address_rule =
    \<lparr>field = ''shipping_address'', required = True, ftype = StringType,
     predicate = (\<lambda>v. True),
     reason = ''shipping_address must be a string''\<rparr>"

definition CreateOrderDTO_rules :: FieldSpec where
  "CreateOrderDTO_rules = [products_rule, quantity_rule, shipping_address_rule]"

subsection \<open>validate\<close>

text \<open>
  Modelled from the spec: type conformance of a value (section 4.1), for the three type
  decorators of the table. \<^verbatim>\<open>IsNumber\<close> asks for a finite number, \<^verbatim>\<open>IsString\<close>
  for a string, and \<^verbatim>\<open>IsArray\<close> for an array, whatever its elements are.
\<close>

fun conforms :: "field_type \<Rightarrow> jsval \<Rightarrow> bool" where
  "conforms NumberType (JNum n) = True"
| "conforms NumberType v = False"
| "conforms StringType (JStr s) = True"
| "conforms StringType v = False"
| "conforms ArrayType (JArr xs) = True"
| "conforms ArrayType v = False"

text \<open>
  Modelled from the spec: the check of one field (section 4.1). A required field that
  is absent is a \<open>MISSING_FIELD\<close>; a present field that fails its type or its predicate
  is an \<open>INVALID_VALUE\<close> with the field name and the reason.
\<close>

definition check_field :: "payload \<Rightarrow> FieldRule \<Rightarrow> violation list" where
  "check_field rawPayload rule =
    (case rawPayload (field rule) of
       None \<Rightarrow> if required rule then [MISSING_FIELD (field rule)] else []
     | Some v \<Rightarrow>
         if conforms (ftype rule) v \<and> predicate rule v then []
         else [INVALID_VALUE (field rule) (reason rule)])"

text \<open>
  Modelled from the spec: \<open>validate(rawPayload, fieldSpec)\<close> (section 4.1), the
  validation routine that the sources leave to the framework. Every field of the table
  is checked and every violation collected; success returns the declared fields only.
\<close>

definition validate :: "payload \<Rightarrow> FieldSpec \<Rightarrow> violation list + payload" where
  "validate rawPayload fieldSpec =
    (let violations = concat (map (check_field rawPayload) fieldSpec) in
     if violations = []
     then Inr (rawPayload |` set (map field fieldSpec))
     else Inl violations)"

text \<open>
  Modelled from the spec: a rule is violated by a payload that holds a value for the
  rule's field which fails the type or the predicate; \<open>invalid_fields\<close> lists the
  fields of the \<open>INVALID_VALUE\<close> entries of a violation list, in order.
\<close>

definition violates :: "payload \<Rightarrow> FieldRule \<Rightarrow> bool" where
  "violates rawPayload rule =
    (case rawPayload (field rule) of
       None \<Rightarrow> False
     | Some v \<Rightarrow> \<not> (conforms (ftype rule) v \<and> predicate rule v))"

fun invalid_fields :: "violation list \<Rightarrow> string list" where
  "invalid_fields [] = []"
| "invalid_fields (INVALID_VALUE f r # vs) = f # invalid_fields vs"
| "invalid_fields (MISSING_FIELD f # vs) = invalid_fields vs"

text \<open>
  Modelled from the spec: the normalized payload as the argument of
  \<^verbatim>\<open>createOrder\<close>, \<open>None\<close> when a field is absent or of another type. The
  elements of \<^verbatim>\<open>products\<close> pass as they are.
\<close>

definition to_CreateOrderDTO :: "payload \<Rightarrow> CreateOrderDTO option" where
  "to_CreateOrderDTO normalized =
    (case (normalized ''products'', normalized ''quantity'',
           normalized ''shipping_address'') of
       (Some (JArr xs), Some (JNum q), Some (JStr a)) \<Rightarrow>
          Some \<lparr>products = xs, quantity = q, shipping_address = a\<rparr>
     | _ \<Rightarrow> None)"

subsection \<open>The create and read operations of the store\<close>

datatype failure =
    VALIDATION_FAILED "violation list"
  | RECORD_NOT_FOUND int
  | EXCEPTION exception

text \<open>
  Modelled from the spec: the create operation at the request boundary (sections 2
  and 6), which validates the raw payload and calls the service's \<^verbatim>\<open>createOrder\<close>
  only with a normalized payload.
\<close>

definition create :: "OrdersService \<Rightarrow> Date \<Rightarrow> payload \<Rightarrow> (failure + Order) \<times> OrdersService" where
  "create this now rawPayload =
    (case validate rawPayload CreateOrderDTO_rules of
       Inl violations \<Rightarrow> (Inl (VALIDATION_FAILED violations), this)
     | Inr normalized \<Rightarrow>
         (case createOrder this now (to_CreateOrderDTO normalized) of
            (Inl e, this1) \<Rightarrow> (Inl (EXCEPTION e), this1)
          | (Inr order, this1) \<Rightarrow> (Inr order, this1)))"

text \<open>
  Modelled from the spec: \<open>lookup(id)\<close> of the record store (section 4.2) on the state
  of \<^verbatim>\<open>OrdersService\<close>, which has no read method of its own. The search is the one of
  \<^verbatim>\<open>UsersService.findOne\<close>: the first record of the array with the requested id.
\<close>

definition lookup :: "OrdersService \<Rightarrow> int \<Rightarrow> failure + Order" where
  "lookup this i =
    (case List.find (\<lambda>order. order_id order = i) (orders this) of
       None \<Rightarrow> Inl (RECORD_NOT_FOUND i)
     | Some order \<Rightarrow> Inr order)"

section \<open>Properties of rounding\<close>

lemma floor_numeral_divide:
  "\<lfloor>(numeral a :: rat) / numeral b\<rfloor> = numeral a div numeral b"
  using floor_divide_of_int_eq [of "numeral a" "numeral b", where ?'a = rat] by simp

lemmas binary64_eval =
  binary64_def ulp_def round_half_even_def bit_length.simps Let_def floor_numeral_divide

lemma bit_length_le: "n < 2 ^ k \<Longrightarrow> bit_length n \<le> k"
proof (induction k arbitrary: n)
  case 0
  then show ?case by (simp add: bit_length.simps)
next
  case (Suc k)
  show ?case
  proof (cases "n = 0")
    case True
    then show ?thesis by (simp add: bit_length.simps)
  next
    case False
    from Suc.prems have "n div 2 < 2 ^ k" by simp
    then have "bit_length (n div 2) \<le> k" by (rule Suc.IH)
    then show ?thesis using False by (subst bit_length.simps) simp
  qed
qed

lemma round_half_even_of_int: "round_half_even (of_int m) = m"
  by (simp add: round_half_even_def)

text \<open>Every integer of magnitude up to \<open>2^53\<close> is a double: rounding leaves it alone.\<close>

lemma binary64_int:
  assumes "\<bar>n\<bar> \<le> 2 ^ 53"
  shows "binary64 (of_int n) = of_int n"
proof -
  define k where "k = bit_length (nat \<lfloor>\<bar>rat_of_int n\<bar>\<rfloor>)"
  have fl: "nat \<lfloor>\<bar>rat_of_int n\<bar>\<rfloor> = nat \<bar>n\<bar>"
    by (metis floor_of_int of_int_abs)
  show ?thesis
  proof (cases "k < 53")
    case True
    then have u: "ulp (of_int n) = 1 / 2 ^ (53 - k)"
      by (simp add: ulp_def k_def Let_def)
    have "rat_of_int n / (1 / 2 ^ (53 - k)) = of_int (n * 2 ^ (53 - k))" by simp
    then have "round_half_even (rat_of_int n / ulp (of_int n)) = n * 2 ^ (53 - k)"
      by (simp only: u round_half_even_of_int)
    then show ?thesis by (simp add: binary64_def u)
  next
    case False
    show ?thesis
    proof (cases "\<bar>n\<bar> < 2 ^ 53")
      case True
      then have "nat \<bar>n\<bar> < 2 ^ 53" by (simp add: nat_less_iff)
      then have "k \<le> 53" unfolding k_def fl by (rule bit_length_le)
      with False have "k = 53" by simp
      then have u: "ulp (of_int n) = 1" by (simp add: ulp_def k_def Let_def)
      show ?thesis by (simp add: binary64_def u round_half_even_of_int)
    next
      case big: False
      with assms have abs: "\<bar>n\<bar> = 2 ^ 53" by simp
      then have "nat \<bar>n\<bar> < 2 ^ 54" by (simp add: nat_less_iff)
      then have "k \<le> 54" unfolding k_def fl by (rule bit_length_le)
      moreover have "53 \<le> k" using False by simp
      ultimately have "k = 53 \<or> k = 54" by arith
      then have "ulp (of_int n) = 1 \<or> ulp (of_int n) = 2"
        by (auto simp: ulp_def k_def Let_def)
      moreover have "binary64 (of_int n) = of_int n" if "ulp (of_int n) = 1"
        by (simp add: binary64_def that round_half_even_of_int)
      moreover have "binary64 (of_int n) = of_int n" if two: "ulp (of_int n) = 2"
      proof -
        from abs have "n = 2 ^ 53 \<or> n = - (2 ^ 53)" by arith
        then obtain m where m: "n = 2 * m" by auto
        have "rat_of_int n / 2 = of_int m" by (simp add: m)
        then have r: "round_half_even (rat_of_int n / 2) = m"
          by (simp only: round_half_even_of_int)
        have "binary64 (of_int n) = of_int m * 2"
          by (simp only: binary64_def r two)
        also have "\<dots> = of_int n" by (simp add: m)
        finally show ?thesis .
      qed
      ultimately show ?thesis by blast
    qed
  qed
qed

text \<open>
  Hence the product of an integer quantity and \<open>1000\<close> is exact as long as it does not
  exceed \<open>2^53\<close>.
\<close>

lemma binary64_times_1000:
  assumes "q \<in> \<int>" and "\<bar>q\<bar> * 1000 \<le> 2 ^ 53"
  shows "binary64 (q * 1000) = q * 1000"
proof -
  from assms(1) obtain n where n: "q = rat_of_int n" by (auto elim: Ints_cases)
  have "rat_of_int (\<bar>n * 1000\<bar>) \<le> rat_of_int (2 ^ 53)"
    using assms(2) by (simp add: n abs_mult)
  then have "\<bar>n * 1000\<bar> \<le> 2 ^ 53" by (simp only: of_int_le_iff)
  then have "binary64 (of_int (n * 1000)) = of_int (n * 1000)" by (rule binary64_int)
  then show ?thesis by (simp add: n)
qed

text \<open>Beyond \<open>2^53\<close> the product is rounded, also on a tie and for a fraction.\<close>

lemma binary64_large: "binary64 (9007199254740991 * 1000) = 9007199254740990976"
  by (simp add: binary64_eval)

lemma binary64_tie: "binary64 (72057594037929 * 1000) = 72057594037928992"
  by (simp add: binary64_eval)

lemma binary64_fraction:
  "binary64 (1131529406376837 / 1125899906842624 * 1000) = 8840073487319039 / 8796093022208"
  by (simp add: binary64_eval)

lemma binary64_2000: "binary64 (2 * 1000) = 2000"
  by (simp add: binary64_eval)

section \<open>Properties of the order service\<close>

subsection \<open>One call\<close>

lemma createOrder_Some:
  "createOrder this now (Some dto) =
    (Inr \<lparr>order_id = currentId this + 1, order_products = products dto,
          order_quantity = quantity dto, order_shipping_address = shipping_address dto,
          total_amount = binary64 (quantity dto * 1000), created_at = now\<rparr>,
     \<lparr>orders = orders this @
        [\<lparr>order_id = currentId this + 1, order_products = products dto,
          order_quantity = quantity dto, order_shipping_address = shipping_address dto,
          total_amount = binary64 (quantity dto * 1000), created_at = now\<rparr>],
      currentId = currentId this + 1\<rparr>)"
  by (simp add: createOrder_def Let_def)

lemma createOrder_None:
  "createOrder this now None =
    (Inl (BadRequestException create_failed_message),
     \<lparr>orders = orders this, currentId = currentId this + 1\<rparr>)"
  by (simp add: createOrder_def Let_def)

lemma createOrder_currentId:
  "currentId (snd (createOrder this now dto)) = currentId this + 1"
  by (cases dto) (simp_all add: createOrder_Some createOrder_None)

lemma createOrder_result_id:
  "fst (createOrder this now dto) = Inr r \<Longrightarrow> order_id r = currentId this + 1"
  by (cases dto) (auto simp: createOrder_Some createOrder_None)

text \<open>
  Claim C3 as stated fails: the derived field is not \<open>quantity * 1000\<close> for every
  valid payload. The quantity \<open>9007199254740991\<close> passes \<^verbatim>\<open>IsNumber\<close> and
  \<^verbatim>\<open>Min(1)\<close>; its product with \<open>1000\<close> is not a double, and the record holds the
  nearest double, \<open>9007199254740990976\<close>.
\<close>

theorem createOrder_total_counterexample:
  "fst (createOrder OrdersService_init (Date 0)
          (Some \<lparr>products = [JNum 1], quantity = 9007199254740991,
                 shipping_address = ''X''\<rparr>)) =
     Inr \<lparr>order_id = 1, order_products = [JNum 1], order_quantity = 9007199254740991,
          order_shipping_address = ''X'', total_amount = 9007199254740990976,
          created_at = Date 0\<rparr>
   \<and> (9007199254740990976 :: rat) \<noteq> 9007199254740991 * 1000"
  by (simp add: createOrder_Some OrdersService_init_def binary64_eval)

text \<open>
  The same happens with a fraction: the double \<open>1.005\<close> (the first numeral below)
  gives \<open>1004.9999999999999\<close> (the second), not the exact product.
\<close>

lemma createOrder_total_fraction:
  "total_amount (projr (fst (createOrder OrdersService_init (Date 0)
      (Some \<lparr>products = [JNum 1], quantity = 1131529406376837 / 1125899906842624,
             shipping_address = ''X''\<rparr>)))) = 8840073487319039 / 8796093022208
   \<and> (8840073487319039 / 8796093022208 :: rat) \<noteq>
       1131529406376837 / 1125899906842624 * 1000"
  by (simp add: createOrder_Some binary64_eval)

text \<open>
  Claim C3, amended. On the fresh store, \<^verbatim>\<open>createOrder\<close> applied to the payload with
  products \<open>[1, 2, 3]\<close>, quantity \<open>2\<close> and shipping address \<open>X\<close> returns the record
  with id \<open>1\<close>, the three fields copied, \<open>total_amount = 2000\<close> and the instant of the
  call as \<open>created_at\<close>. In general, for a counter from \<open>0\<close> to below \<open>2^53\<close>, an
  array with fewer than \<open>2^32 - 1\<close> records and a
  quantity that is a double with \<open>1 \<le> quantity\<close> and \<open>quantity * 1000 < 2^1023\<close>, the
  returned record takes the next id, copies the three fields, and has as
  \<open>total_amount\<close> the double nearest to \<open>quantity * 1000\<close>; this is
  \<open>quantity * 1000\<close> itself whenever the quantity is an integer and the product is at
  most \<open>2^53\<close>.
\<close>

theorem createOrder_derived_total:
  assumes "0 \<le> currentId this" and "currentId this < 2 ^ 53"
    and "length (orders this) < 2 ^ 32 - 1"
    and "binary64 (quantity dto) = quantity dto"
    and "1 \<le> quantity dto" and "quantity dto * 1000 < 2 ^ 1023"
  shows "fst (createOrder OrdersService_init now
            (Some \<lparr>products = [JNum 1, JNum 2, JNum 3], quantity = 2,
                   shipping_address = ''X''\<rparr>)) =
           Inr \<lparr>order_id = 1, order_products = [JNum 1, JNum 2, JNum 3],
                order_quantity = 2, order_shipping_address = ''X'',
                total_amount = 2000, created_at = now\<rparr>
         \<and> (\<exists>order. fst (createOrder this now (Some dto)) = Inr order \<and>
               order_id order = currentId this + 1 \<and>
               order_products order = products dto \<and>
               order_quantity order = quantity dto \<and>
               order_shipping_address order = shipping_address dto \<and>
               created_at order = now \<and>
               total_amount order = binary64 (quantity dto * 1000) \<and>
               (quantity dto \<in> \<int> \<and> quantity dto * 1000 \<le> 2 ^ 53 \<longrightarrow>
                  total_amount order = quantity dto * 1000))"
proof
  show "fst (createOrder OrdersService_init now
            (Some \<lparr>products = [JNum 1, JNum 2, JNum 3], quantity = 2,
                   shipping_address = ''X''\<rparr>)) =
           Inr \<lparr>order_id = 1, order_products = [JNum 1, JNum 2, JNum 3],
                order_quantity = 2, order_shipping_address = ''X'',
                total_amount = 2000, created_at = now\<rparr>"
    by (simp add: createOrder_Some OrdersService_init_def binary64_eval)
next
  have exact: "binary64 (quantity dto * 1000) = quantity dto * 1000"
    if "quantity dto \<in> \<int>" and "quantity dto * 1000 \<le> 2 ^ 53"
  proof -
    have "\<bar>quantity dto\<bar> = quantity dto" using assms(5) by simp
    then have "\<bar>quantity dto\<bar> * 1000 \<le> 2 ^ 53" using that(2) by simp
    with that(1) show ?thesis by (rule binary64_times_1000)
  qed
  then show "\<exists>order. fst (createOrder this now (Some dto)) = Inr order \<and>
               order_id order = currentId this + 1 \<and>
               order_products order = products dto \<and>
               order_quantity order = quantity dto \<and>
               order_shipping_address order = shipping_address dto \<and>
               created_at order = now \<and>
               total_amount order = binary64 (quantity dto * 1000) \<and>
               (quantity dto \<in> \<int> \<and> quantity dto * 1000 \<le> 2 ^ 53 \<longrightarrow>
                  total_amount order = quantity dto * 1000)"
    by (simp add: createOrder_Some)
qed

text \<open>
  The fresh store and the payload with quantity \<open>3\<close>: the record has id \<open>1\<close> and
  \<open>total_amount = 3000\<close>.
\<close>

theorem createOrder_derived_total_witness:
  "currentId OrdersService_init = 0 \<and>
   binary64 3 = 3 \<and>
   (\<exists>order. fst (createOrder OrdersService_init (Date 7)
        (Some \<lparr>products = [JStr ''a''], quantity = 3, shipping_address = ''Y''\<rparr>)) =
        Inr order \<and>
      order_id order = 1 \<and> order_products order = [JStr ''a''] \<and>
      order_quantity order = 3 \<and> created_at order = Date 7 \<and>
      total_amount order = 3000)"
proof -
  let ?dto = "\<lparr>products = [JStr ''a''], quantity = 3, shipping_address = ''Y''\<rparr>"
  have counter: "currentId OrdersService_init = 0" by (simp add: OrdersService_init_def)
  have low: "0 \<le> currentId OrdersService_init" by (simp add: counter)
  have high: "currentId OrdersService_init < 2 ^ 53" by (simp add: counter)
  have room: "length (orders OrdersService_init) < 2 ^ 32 - 1"
    by (simp add: OrdersService_init_def)
  have double: "binary64 3 = 3" by (simp add: binary64_eval)
  have double': "binary64 (quantity ?dto) = quantity ?dto" by (simp add: double)
  have valid: "1 \<le> quantity ?dto" by simp
  have finite: "quantity ?dto * 1000 < 2 ^ 1023" by simp
  have whole: "quantity ?dto \<in> \<int> \<and> quantity ?dto * 1000 \<le> 2 ^ 53" by simp
  from createOrder_derived_total [OF low high room double' valid finite, of "Date 7"]
  obtain order where
    run: "fst (createOrder OrdersService_init (Date 7) (Some ?dto)) = Inr order" and
    fields: "order_id order = currentId OrdersService_init + 1"
      "order_products order = products ?dto" "order_quantity order = quantity ?dto"
      "created_at order = Date 7" and
    total: "quantity ?dto \<in> \<int> \<and> quantity ?dto * 1000 \<le> 2 ^ 53 \<longrightarrow>
      total_amount order = quantity ?dto * 1000"
    by (elim conjE exE)
  from total whole have "total_amount order = quantity ?dto * 1000" by (rule mp)
  then have "total_amount order = 3000" by simp
  with run fields counter have "\<exists>order. fst (createOrder OrdersService_init (Date 7)
        (Some ?dto)) = Inr order \<and>
      order_id order = 1 \<and> order_products order = [JStr ''a''] \<and>
      order_quantity order = 3 \<and> created_at order = Date 7 \<and>
      total_amount order = 3000"
    by (intro exI [of _ order]) simp
  with counter double show ?thesis by (intro conjI)
qed

subsection \<open>Sequences of calls\<close>

lemma createOrders_ids_above:
  "r \<in> set (returned (fst (createOrders this calls))) \<Longrightarrow> currentId this < order_id r"
proof (induction calls arbitrary: this)
  case Nil
  then show ?case by simp
next
  case (Cons c calls)
  obtain now d where c: "c = (now, d)" by (cases c)
  obtain x this1 where co: "createOrder this now d = (x, this1)"
    by (cases "createOrder this now d")
  have step: "currentId this1 = currentId this + 1"
    using createOrder_currentId [of this now d] co by simp
  obtain rs this2 where cs: "createOrders this1 calls = (rs, this2)"
    by (cases "createOrders this1 calls")
  from Cons.prems c co cs have "r \<in> set (returned (x # rs))" by simp
  then consider "x = Inr r" | "r \<in> set (returned rs)"
    by (cases x) auto
  then show ?case
  proof cases
    case 1
    then show ?thesis using createOrder_result_id [of this now d r] co by simp
  next
    case 2
    then have "currentId this1 < order_id r" using Cons.IH [of this1] cs by simp
    then show ?thesis using step by simp
  qed
qed

lemma createOrders_ids_sorted:
  "sorted_wrt (<) (map order_id (returned (fst (createOrders this calls))))"
proof (induction calls arbitrary: this)
  case Nil
  then show ?case by simp
next
  case (Cons c calls)
  obtain now d where c: "c = (now, d)" by (cases c)
  obtain x this1 where co: "createOrder this now d = (x, this1)"
    by (cases "createOrder this now d")
  have step: "currentId this1 = currentId this + 1"
    using createOrder_currentId [of this now d] co by simp
  obtain rs this2 where cs: "createOrders this1 calls = (rs, this2)"
    by (cases "createOrders this1 calls")
  have rest: "sorted_wrt (<) (map order_id (returned rs))"
    using Cons.IH [of this1] cs by simp
  show ?case
  proof (cases x)
    case (Inl e)
    then show ?thesis using c co cs rest by simp
  next
    case (Inr r)
    have "order_id r = currentId this + 1"
      using createOrder_result_id [of this now d r] co Inr by simp
    moreover have "\<forall>r' \<in> set (returned rs). currentId this1 < order_id r'"
      using createOrders_ids_above [of _ this1 calls] cs by simp
    ultimately show ?thesis using c co cs rest Inr step by simp
  qed
qed

text \<open>
  Claim C2. For every sequence of calls of \<^verbatim>\<open>createOrder\<close> on one store, from any
  state whose counter is not negative and stays within \<open>2^53\<close> during the calls (the
  range on which \<^verbatim>\<open>++\<close> is exact) and whose array has room for the records, the
  ids of the records that the successful calls return are strictly increasing in call
  order and pairwise distinct. (Calls do not
  interleave: the body has no \<^verbatim>\<open>await\<close>, so each call is one step of
  \<open>createOrders\<close>.)
\<close>

theorem createOrder_ids_strictly_increasing:
  assumes "0 \<le> currentId this" and "currentId this + int (length calls) \<le> 2 ^ 53"
    and "length (orders this) + length calls < 2 ^ 32"
  shows "sorted_wrt (<) (map order_id (returned (fst (createOrders this calls)))) \<and>
         distinct (map order_id (returned (fst (createOrders this calls))))"
  using createOrders_ids_sorted [of this calls] by (simp add: strict_sorted_iff)

text \<open>
  Three calls on the fresh service, the second without a payload: the returned ids are
  \<open>1\<close> and \<open>3\<close>.
\<close>

theorem createOrder_ids_strictly_increasing_witness:
  "currentId OrdersService_init = 0 \<and>
   map order_id (returned (fst (createOrders OrdersService_init
      [(Date 0, Some \<lparr>products = [JNum 1], quantity = 1, shipping_address = ''A''\<rparr>),
       (Date 1, None),
       (Date 2, Some \<lparr>products = [JNum 2], quantity = 5, shipping_address = ''B''\<rparr>)]))) =
     [1, 3] \<and>
   sorted_wrt (<) (map order_id (returned (fst (createOrders OrdersService_init
      [(Date 0, Some \<lparr>products = [JNum 1], quantity = 1, shipping_address = ''A''\<rparr>),
       (Date 1, None),
       (Date 2, Some \<lparr>products = [JNum 2], quantity = 5, shipping_address = ''B''\<rparr>)])))) \<and>
   distinct (map order_id (returned (fst (createOrders OrdersService_init
      [(Date 0, Some \<lparr>products = [JNum 1], quantity = 1, shipping_address = ''A''\<rparr>),
       (Date 1, None),
       (Date 2, Some \<lparr>products = [JNum 2], quantity = 5, shipping_address = ''B''\<rparr>)]))))"
proof -
  let ?calls =
    "[(Date 0, Some \<lparr>products = [JNum 1], quantity = 1, shipping_address = ''A''\<rparr>),
      (Date 1, None),
      (Date 2, Some \<lparr>products = [JNum 2], quantity = 5, shipping_address = ''B''\<rparr>)]"
  have counter: "currentId OrdersService_init = 0" by (simp add: OrdersService_init_def)
  have low: "0 \<le> currentId OrdersService_init" by (simp add: counter)
  have high: "currentId OrdersService_init + int (length ?calls) \<le> 2 ^ 53"
    by (simp add: counter)
  have room: "length (orders OrdersService_init) + length ?calls < 2 ^ 32"
    by (simp add: OrdersService_init_def)
  have ids: "map order_id (returned (fst (createOrders OrdersService_init ?calls))) = [1, 3]"
    by (simp add: createOrder_Some createOrder_None OrdersService_init_def)
  from createOrder_ids_strictly_increasing [OF low high room]
  have "sorted_wrt (<) (map order_id (returned (fst (createOrders OrdersService_init ?calls))))"
    and "distinct (map order_id (returned (fst (createOrders OrdersService_init ?calls))))"
    by (rule conjunct1, rule conjunct2)
  with counter ids show ?thesis by (intro conjI)
qed




section \<open>Properties of the user service\<close>

subsection \<open>Objects built from entries\<close>

lemma keys_set_property:
  "map fst (set_property obj k v) =
     (if k \<in> set (map fst obj) then map fst obj else map fst obj @ [k])"
  by (induction obj) (auto simp: set_property_def)

lemma fromEntries_Nil: "fromEntries [] = []"
  by (simp add: fromEntries_def)

lemma fromEntries_snoc:
  "fromEntries (entries @ [(k, v)]) = set_property (fromEntries entries) k v"
  by (simp add: fromEntries_def)

lemma first_occurrences_snoc:
  "first_occurrences (xs @ [x]) =
     (if x \<in> set xs then first_occurrences xs else first_occurrences xs @ [x])"
  by (simp add: first_occurrences_def)

lemma set_first_occurrences: "set (first_occurrences xs) = set xs"
  by (simp add: first_occurrences_def)

text \<open>The keys of the object are the keys of the entries, each at its first occurrence.\<close>

lemma keys_fromEntries:
  "map fst (fromEntries entries) = first_occurrences (map fst entries)"
proof (induction entries rule: rev_induct)
  case Nil
  then show ?case by (simp add: fromEntries_Nil first_occurrences_def)
next
  case (snoc e entries)
  obtain k v where e: "e = (k, v)" by (cases e)
  have "set (map fst (fromEntries entries)) = set (map fst entries)"
    by (simp only: snoc.IH set_first_occurrences)
  then show ?case
    using snoc.IH
    by (simp only: e fromEntries_snoc keys_set_property map_append list.map fst_conv
          first_occurrences_snoc)
qed

lemma values_set_property:
  assumes "(k', v') \<in> set (set_property obj k v)"
  shows "(k', v') \<in> set obj \<or> (k', v') = (k, v)"
  using assms by (auto simp: set_property_def split: if_splits)

lemma values_fromEntries:
  "(k, v) \<in> set (fromEntries entries) \<Longrightarrow> (k, v) \<in> set entries"
proof (induction entries arbitrary: k v rule: rev_induct)
  case Nil
  then show ?case by (simp add: fromEntries_Nil)
next
  case (snoc e entries)
  obtain k0 v0 where e: "e = (k0, v0)" by (cases e)
  from snoc.prems have "(k, v) \<in> set (set_property (fromEntries entries) k0 v0)"
    by (simp add: e fromEntries_snoc)
  then have "(k, v) \<in> set (fromEntries entries) \<or> (k, v) = (k0, v0)"
    by (rule values_set_property)
  then show ?case using snoc.IH e by auto
qed

lemma values_fromEntries_map:
  "map snd (fromEntries (map (\<lambda>k. (k, g k)) ks)) =
   map g (map fst (fromEntries (map (\<lambda>k. (k, g k)) ks)))"
proof -
  have "\<forall>e \<in> set (fromEntries (map (\<lambda>k. (k, g k)) ks)). snd e = g (fst e)"
  proof
    fix e assume e: "e \<in> set (fromEntries (map (\<lambda>k. (k, g k)) ks))"
    obtain k v where kv: "e = (k, v)" by (cases e)
    from e have "(k, v) \<in> set (map (\<lambda>k. (k, g k)) ks)"
      unfolding kv by (rule values_fromEntries)
    then show "snd e = g (fst e)" using kv by auto
  qed
  then show ?thesis by simp
qed

subsection \<open>The stored user\<close>

lemma find_users_initial:
  "List.find (\<lambda>user. user_id user = 1) users_initial = Some (hd users_initial)"
  by (simp add: users_initial_def)

lemma own_properties_initial:
  "own_properties (hd users_initial) =
    [(''id'', JNum 1),
     (''name'', JStr [CHR 0xE7, CHR 0x94, CHR 0xB0, CHR 0xE4, CHR 0xB8, CHR 0xAD,
                     CHR 0xE5, CHR 0xA4, CHR 0xAA, CHR 0xE9, CHR 0x83, CHR 0x8E]),
     (''email'', JStr ''tanaka@example.com''),
     (''age'', JNum 30),
     (''preferences'',
        JArr [JStr [CHR 0xE8, CHR 0xAA, CHR 0xAD, CHR 0xE6, CHR 0x9B, CHR 0xB8],
              JStr [CHR 0xE6, CHR 0x98, CHR 0xA0, CHR 0xE7, CHR 0x94, CHR 0xBB]])]"
  by (simp add: own_properties_def users_initial_def)

subsection \<open>The empty field list\<close>

text \<open>
  Claim C7. For every stored record, \<^verbatim>\<open>findOne\<close> with an empty list of fields
  returns the full record unchanged: all five fields, in declared order, with the
  record's values.
\<close>

theorem findOne_no_fields_full_record:
  assumes "List.find (\<lambda>user. user_id user = i) users = Some user"
  shows "findOne users i [] = Inr (own_properties user)"
  using assms by (simp add: findOne_def)

text \<open>The stored user, read with no fields.\<close>

theorem findOne_no_fields_full_record_witness:
  "List.find (\<lambda>user. user_id user = 1) users_initial = Some (hd users_initial) \<and>
   findOne users_initial 1 [] =
     Inr [(''id'', JNum 1),
          (''name'', JStr [CHR 0xE7, CHR 0x94, CHR 0xB0, CHR 0xE4, CHR 0xB8, CHR 0xAD,
                          CHR 0xE5, CHR 0xA4, CHR 0xAA, CHR 0xE9, CHR 0x83, CHR 0x8E]),
          (''email'', JStr ''tanaka@example.com''),
          (''age'', JNum 30),
          (''preferences'',
             JArr [JStr [CHR 0xE8, CHR 0xAA, CHR 0xAD, CHR 0xE6, CHR 0x9B, CHR 0xB8],
                   JStr [CHR 0xE6, CHR 0x98, CHR 0xA0, CHR 0xE7, CHR 0x94, CHR 0xBB]])]"
  using findOne_no_fields_full_record [OF find_users_initial] find_users_initial
  by (simp add: own_properties_initial)

subsection \<open>The order of a projection\<close>

text \<open>
  Claim C1 as stated fails: asked for \<open>email\<close> and then \<open>name\<close>, \<^verbatim>\<open>findOne\<close>
  returns the two entries in this order, which is the order of the request and not the
  declared order, where \<open>name\<close> comes before \<open>email\<close>.
\<close>

theorem findOne_declared_order_counterexample:
  "findOne users_initial 1 [''email'', ''name''] =
     Inr [(''email'', JStr ''tanaka@example.com''),
          (''name'', JStr [CHR 0xE7, CHR 0x94, CHR 0xB0, CHR 0xE4, CHR 0xB8, CHR 0xAD,
                          CHR 0xE5, CHR 0xA4, CHR 0xAA, CHR 0xE9, CHR 0x83, CHR 0x8E])]
   \<and> \<not> in_declared_order
         [(''email'', JStr ''tanaka@example.com''),
          (''name'', JStr [CHR 0xE7, CHR 0x94, CHR 0xB0, CHR 0xE4, CHR 0xB8, CHR 0xAD,
                          CHR 0xE5, CHR 0xA4, CHR 0xAA, CHR 0xE9, CHR 0x83, CHR 0x8E])]"
  by (simp add: findOne_def users_initial_def fromEntries_def set_property_def
        has_property_def get_property_def own_properties_def Object_prototype_keys_def
        in_declared_order_def validFields_def)

text \<open>
  Claim C1, amended. For every stored record and every non-empty list of fields, the
  entries of the projection appear in the order of the request: the keys are the
  requested names that the \<^verbatim>\<open>in\<close> test accepts, each once, at its first occurrence,
  and each entry holds the record's value for its key. Consequently the projections for
  \<open>[a, b]\<close> and \<open>[b, a]\<close> hold the same value under every key (they are equal as
  maps from names to values), while their entries may be enumerated in different orders.
\<close>

theorem findOne_request_order:
  assumes "List.find (\<lambda>user. user_id user = i) users = Some user" and "fs \<noteq> []"
  shows "(\<exists>obj. findOne users i fs = Inr obj \<and>
            map fst obj = first_occurrences (filter (has_property user) fs) \<and>
            map snd obj = map (get_property user) (map fst obj)) \<and>
         (\<exists>p q. findOne users i [a, b] = Inr p \<and> findOne users i [b, a] = Inr q \<and>
            map_of p = map_of q)"
proof
  have "findOne users i fs =
      Inr (fromEntries (map (\<lambda>k. (k, get_property user k))
             (filter (has_property user) fs)))"
    using assms by (simp add: findOne_def)
  moreover have "map fst (fromEntries (map (\<lambda>k. (k, get_property user k))
             (filter (has_property user) fs))) =
      first_occurrences (filter (has_property user) fs)"
    by (simp add: keys_fromEntries o_def)
  ultimately show "\<exists>obj. findOne users i fs = Inr obj \<and>
            map fst obj = first_occurrences (filter (has_property user) fs) \<and>
            map snd obj = map (get_property user) (map fst obj)"
    using values_fromEntries_map [of "get_property user"] by simp
next
  show "\<exists>p q. findOne users i [a, b] = Inr p \<and> findOne users i [b, a] = Inr q \<and>
            map_of p = map_of q"
    using assms(1) by (auto simp: findOne_def fromEntries_def set_property_def fun_eq_iff)
qed

text \<open>
  The stored user, asked for \<open>email\<close>, \<open>name\<close> and \<open>email\<close> again: the keys are
  \<open>email\<close>, \<open>name\<close>.
\<close>

theorem findOne_request_order_witness:
  "List.find (\<lambda>user. user_id user = 1) users_initial = Some (hd users_initial) \<and>
   [''email'', ''name'', ''email''] \<noteq> [] \<and>
   (\<exists>obj. findOne users_initial 1 [''email'', ''name'', ''email''] = Inr obj \<and>
      map fst obj = [''email'', ''name'']) \<and>
   (\<exists>p q. findOne users_initial 1 [''email'', ''name''] = Inr p \<and>
      findOne users_initial 1 [''name'', ''email''] = Inr q \<and> map_of p = map_of q)"
proof -
  have nonempty: "[''email'', ''name'', ''email''] \<noteq> []" by simp
  have kept: "first_occurrences
      (filter (has_property (hd users_initial)) [''email'', ''name'', ''email'']) =
      [''email'', ''name'']"
    by (simp add: first_occurrences_def has_property_def own_properties_def)
  have both:
    "(\<exists>obj. findOne users_initial 1 [''email'', ''name'', ''email''] = Inr obj \<and>
        map fst obj = first_occurrences
          (filter (has_property (hd users_initial)) [''email'', ''name'', ''email'']) \<and>
        map snd obj = map (get_property (hd users_initial)) (map fst obj)) \<and>
     (\<exists>p q. findOne users_initial 1 [''email'', ''name''] = Inr p \<and>
        findOne users_initial 1 [''name'', ''email''] = Inr q \<and> map_of p = map_of q)"
    by (rule findOne_request_order [OF find_users_initial nonempty])
  then have keys: "\<exists>obj. findOne users_initial 1 [''email'', ''name'', ''email''] = Inr obj \<and>
      map fst obj = [''email'', ''name'']"
    unfolding kept by (elim conjE exE) (intro exI conjI; assumption)
  from both have maps: "\<exists>p q. findOne users_initial 1 [''email'', ''name''] = Inr p \<and>
      findOne users_initial 1 [''name'', ''email''] = Inr q \<and> map_of p = map_of q"
    by (rule conjunct2)
  show ?thesis
    by (intro conjI find_users_initial nonempty keys maps)
qed

subsection \<open>Names that are not fields\<close>

text \<open>
  Claim C8 as stated fails: \<open>toString\<close> is not a field of the record, yet the
  \<^verbatim>\<open>in\<close> test accepts it, because every plain object inherits it from
  \<^verbatim>\<open>Object.prototype\<close>; the projection then has one entry and is not empty.
\<close>

theorem findOne_inherited_name_counterexample:
  "findOne users_initial 1 [''toString''] = Inr [(''toString'', JBuiltin ''toString'')] \<and>
   findOne users_initial 1 [''toString''] \<noteq> Inr []"
  by (simp add: findOne_def users_initial_def fromEntries_def set_property_def
        has_property_def get_property_def own_properties_def Object_prototype_keys_def)

text \<open>
  Claim C8, amended. For every stored record and every non-empty list of fields,
  \<^verbatim>\<open>findOne\<close> returns a projection and signals no error; a name that the record
  object neither owns nor inherits from \<^verbatim>\<open>Object.prototype\<close> is not a key of the
  projection; and when no requested name is owned or inherited, the projection is empty.
\<close>

theorem findOne_unknown_names_dropped:
  assumes "List.find (\<lambda>user. user_id user = i) users = Some user" and "fs \<noteq> []"
  shows "\<exists>obj. findOne users i fs = Inr obj \<and>
           (\<forall>k. \<not> has_property user k \<longrightarrow> k \<notin> set (map fst obj)) \<and>
           ((\<forall>k \<in> set fs. \<not> has_property user k) \<longrightarrow> obj = [])"
proof -
  let ?kept = "filter (has_property user) fs"
  let ?obj = "fromEntries (map (\<lambda>k. (k, get_property user k)) ?kept)"
  have run: "findOne users i fs = Inr ?obj"
    using assms by (simp add: findOne_def)
  have keys: "set (map fst ?obj) = set ?kept"
    by (simp only: keys_fromEntries set_first_occurrences) (simp add: o_def)
  have "\<forall>k. \<not> has_property user k \<longrightarrow> k \<notin> set (map fst ?obj)"
    by (simp only: keys) simp
  moreover have "(\<forall>k \<in> set fs. \<not> has_property user k) \<longrightarrow> ?obj = []"
  proof
    assume "\<forall>k \<in> set fs. \<not> has_property user k"
    then have "?kept = []" by (simp add: filter_empty_conv)
    then show "?obj = []" by (simp add: fromEntries_Nil)
  qed
  ultimately show ?thesis using run by blast
qed

text \<open>The stored user, asked for \<open>unknown_field\<close> and \<open>foo\<close>: the empty projection.\<close>

theorem findOne_unknown_names_dropped_witness:
  "List.find (\<lambda>user. user_id user = 1) users_initial = Some (hd users_initial) \<and>
   [''unknown_field'', ''foo''] \<noteq> [] \<and>
   filter (has_property (hd users_initial)) [''unknown_field'', ''foo''] = [] \<and>
   findOne users_initial 1 [''unknown_field'', ''foo''] = Inr []"
proof -
  have nonempty: "[''unknown_field'', ''foo''] \<noteq> []" by simp
  have unknown: "\<forall>k \<in> set [''unknown_field'', ''foo'']. \<not> has_property (hd users_initial) k"
    by (simp add: has_property_def own_properties_def Object_prototype_keys_def)
  from findOne_unknown_names_dropped [OF find_users_initial nonempty]
  obtain obj where run: "findOne users_initial 1 [''unknown_field'', ''foo''] = Inr obj"
    and empty: "(\<forall>k \<in> set [''unknown_field'', ''foo'']. \<not> has_property (hd users_initial) k)
        \<longrightarrow> obj = []"
    by (elim exE conjE)
  from empty unknown have "obj = []" by (rule mp)
  with run have "findOne users_initial 1 [''unknown_field'', ''foo''] = Inr []" by simp
  moreover have "filter (has_property (hd users_initial)) [''unknown_field'', ''foo''] = []"
    using unknown by (simp only: filter_empty_conv)
  ultimately show ?thesis
    by (intro conjI find_users_initial nonempty)
qed

subsection \<open>The decimal rendering of an id\<close>

lemma digit_inj: "a < 10 \<Longrightarrow> b < 10 \<Longrightarrow> digit a = digit b \<Longrightarrow> a = b"
proof -
  assume a: "a < 10" and b: "b < 10" and eq: "digit a = digit b"
  have d: "distinct ''0123456789''" by simp
  have "a < length ''0123456789''" "b < length ''0123456789''" using a b by simp_all
  with d eq show "a = b" unfolding digit_def by (simp only: nth_eq_iff_index_eq)
qed

lemma digit_not_minus: "d < 10 \<Longrightarrow> digit d \<noteq> CHR ''-''"
proof -
  assume "d < 10"
  then have "d < length ''0123456789''" by simp
  then have "digit d \<in> set ''0123456789''" unfolding digit_def by (rule nth_mem)
  then show ?thesis by auto
qed

lemma show_nat_small: "n < 10 \<Longrightarrow> show_nat n = [digit n]"
  by (simp add: show_nat.simps)

lemma show_nat_large: "\<not> n < 10 \<Longrightarrow> show_nat n = show_nat (n div 10) @ [digit (n mod 10)]"
  by (subst show_nat.simps) simp

lemma show_nat_not_Nil: "show_nat n \<noteq> []"
  by (cases "n < 10") (simp_all add: show_nat_small show_nat_large)

lemma show_nat_no_minus: "CHR ''-'' \<notin> set (show_nat n)"
proof (induction n rule: show_nat.induct)
  case (1 n)
  show ?case
  proof (cases "n < 10")
    case True
    then show ?thesis using digit_not_minus [of n] by (simp add: show_nat_small)
  next
    case False
    have "n mod 10 < 10" by simp
    then have "digit (n mod 10) \<noteq> CHR ''-''" by (rule digit_not_minus)
    then show ?thesis using 1 False by (simp add: show_nat_large)
  qed
qed

text \<open>Two numbers with the same digits are equal: last digit and the rest decide.\<close>

lemma show_nat_inj: "show_nat n = show_nat m \<Longrightarrow> n = m"
proof (induction n arbitrary: m rule: show_nat.induct)
  case (1 n)
  show ?case
  proof (cases "n < 10")
    case n: True
    show ?thesis
    proof (cases "m < 10")
      case True
      then show ?thesis using n "1.prems" digit_inj [of n m] by (simp add: show_nat_small)
    next
      case False
      then show ?thesis using n "1.prems" show_nat_not_Nil [of "m div 10"]
        by (simp add: show_nat_small show_nat_large)
    qed
  next
    case n: False
    show ?thesis
    proof (cases "m < 10")
      case True
      then show ?thesis using n "1.prems" show_nat_not_Nil [of "n div 10"]
        by (simp add: show_nat_small show_nat_large)
    next
      case False
      with n "1.prems" have eq: "show_nat (n div 10) @ [digit (n mod 10)] =
          show_nat (m div 10) @ [digit (m mod 10)]"
        by (simp add: show_nat_large)
      then have "show_nat (n div 10) = show_nat (m div 10)" by simp
      then have q: "n div 10 = m div 10" using "1.IH" n by blast
      from eq have "digit (n mod 10) = digit (m mod 10)" by simp
      then have r: "n mod 10 = m mod 10" using digit_inj [of "n mod 10" "m mod 10"] by simp
      have "n = 10 * (n div 10) + n mod 10" by simp
      also have "\<dots> = 10 * (m div 10) + m mod 10" by (simp only: q r)
      also have "\<dots> = m" by simp
      finally show ?thesis .
    qed
  qed
qed

lemma show_int_inj: "show_int i = show_int j \<Longrightarrow> i = j"
proof -
  assume eq: "show_int i = show_int j"
  have hd_digit: "\<And>n. hd (show_nat n) \<noteq> CHR ''-''"
    using show_nat_no_minus show_nat_not_Nil by (metis hd_in_set)
  show "i = j"
  proof (cases "i < 0")
    case i: True
    show ?thesis
    proof (cases "j < 0")
      case True
      with i eq have "show_nat (nat (- i)) = show_nat (nat (- j))" by (simp add: show_int_def)
      then have "nat (- i) = nat (- j)" by (rule show_nat_inj)
      then show ?thesis using i True by simp
    next
      case False
      with i eq have "CHR ''-'' # show_nat (nat (- i)) = show_nat (nat j)"
        by (simp add: show_int_def)
      then have "hd (show_nat (nat j)) = CHR ''-''" by (metis list.sel(1))
      then show ?thesis using hd_digit by blast
    qed
  next
    case i: False
    show ?thesis
    proof (cases "j < 0")
      case True
      with i eq have "show_nat (nat i) = CHR ''-'' # show_nat (nat (- j))"
        by (simp add: show_int_def)
      then have "hd (show_nat (nat i)) = CHR ''-''" by (metis list.sel(1))
      then show ?thesis using hd_digit by blast
    next
      case False
      with i eq have "show_nat (nat i) = show_nat (nat j)" by (simp add: show_int_def)
      then have "nat i = nat j" by (rule show_nat_inj)
      then show ?thesis using i False by simp
    qed
  qed
qed

lemma not_found_message_inj: "not_found_message i = not_found_message j \<Longrightarrow> i = j"
  by (simp add: not_found_message_def show_int_inj)

lemma show_int_999: "show_int 999 = ''999''"
  by (simp add: show_int_def show_nat.simps digit_def)

subsection \<open>An id that matches no record\<close>

text \<open>
  Claim C6 as stated fails: on the store that holds only id \<open>1\<close>, \<^verbatim>\<open>findOne\<close> for
  id \<open>999\<close> does not return a value that signals the absence; it throws a
  \<^verbatim>\<open>NotFoundException\<close>.
\<close>

theorem findOne_missing_counterexample:
  "findOne users_initial 999 [] =
     Inl (NotFoundException (''ID: 999'' @ not_found_suffix)) \<and>
   \<not> returns (findOne users_initial 999 [])"
  by (simp add: findOne_def users_initial_def not_found_message_def show_int_999 returns_def)

text \<open>
  Claim C6, amended. For every array of users, every id of magnitude below \<open>2^53\<close>
  that matches no stored record and every list of fields, \<^verbatim>\<open>findOne\<close> throws a
  \<^verbatim>\<open>NotFoundException\<close> (it does not return) whose message is \<open>ID: \<close>, the
  decimal rendering of the requested id, and the fixed text; the message carries
  exactly this id, since no other id of this range gives the same message. (The
  method does not write to the array, which the model reflects by returning no state.)
\<close>

theorem findOne_missing_throws:
  assumes "i \<notin> set (map user_id users)" and "\<bar>i\<bar> < 2 ^ 53"
  shows "findOne users i fs =
           Inl (NotFoundException (''ID: '' @ show_int i @ not_found_suffix)) \<and>
         \<not> returns (findOne users i fs) \<and>
         (\<forall>j. \<bar>j\<bar> < 2 ^ 53 \<and> not_found_message j = not_found_message i \<longrightarrow> j = i)"
proof -
  have "List.find (\<lambda>user. user_id user = i) users = None"
    using assms(1) by (auto simp: find_None_iff)
  then have "findOne users i fs = Inl (NotFoundException (not_found_message i))"
    by (simp add: findOne_def)
  then show ?thesis
    using not_found_message_inj by (auto simp: not_found_message_def returns_def)
qed

text \<open>The store that holds only id \<open>1\<close>, asked for id \<open>999\<close> and the field \<open>name\<close>.\<close>

theorem findOne_missing_throws_witness:
  "999 \<notin> set (map user_id users_initial) \<and>
   \<bar>999 :: int\<bar> < 2 ^ 53 \<and>
   findOne users_initial 999 [''name''] =
     Inl (NotFoundException (''ID: 999'' @ not_found_suffix))"
proof -
  have absent: "999 \<notin> set (map user_id users_initial)"
    by (simp add: users_initial_def)
  have small: "\<bar>999 :: int\<bar> < 2 ^ 53" by simp
  from findOne_missing_throws [OF absent small, of "[''name'']"]
  have "findOne users_initial 999 [''name''] =
      Inl (NotFoundException (''ID: '' @ show_int 999 @ not_found_suffix))"
    by (rule conjunct1)
  then have "findOne users_initial 999 [''name''] =
      Inl (NotFoundException (''ID: 999'' @ not_found_suffix))"
    by (simp add: show_int_999)
  with absent small show ?thesis by (intro conjI)
qed

subsection \<open>The read boundary\<close>

text \<open>
  Claim C9. At the composed read boundary (\<^verbatim>\<open>getProfile\<close>, then \<^verbatim>\<open>findOne\<close>), for
  every stored record, a non-empty selector string all of whose comma-separated names
  fail the whitelist is reduced to the empty field list, and the call returns the full
  record with all its fields, not an empty projection.
\<close>

theorem getProfile_rejected_names_full_record:
  assumes "List.find (\<lambda>user. user_id user = i) users = Some user"
    and "s \<noteq> []"
    and "\<forall>k \<in> set (split_on CHR '','' s). k \<notin> set validFields"
  shows "getProfile users i (Some s) = Inr (own_properties user) \<and>
         getProfile users i (Some s) \<noteq> Inr []"
proof -
  have "filter (\<lambda>k. k \<in> set validFields) (split_on CHR '','' s) = []"
    using assms(3) by (simp add: filter_empty_conv)
  then have "getProfile users i (Some s) = Inr (own_properties user)"
    using assms(1) by (simp add: getProfile_def findOne_def)
  then show ?thesis by (simp add: own_properties_def)
qed

text \<open>
  The stored user, read with the selector \<open>foo,toString,Name\<close>: no name is on the
  whitelist, and the answer is the whole record.
\<close>

theorem getProfile_rejected_names_full_record_witness:
  "List.find (\<lambda>user. user_id user = 1) users_initial = Some (hd users_initial) \<and>
   ''foo,toString,Name'' \<noteq> [] \<and>
   split_on CHR '','' ''foo,toString,Name'' = [''foo'', ''toString'', ''Name''] \<and>
   filter (\<lambda>k. k \<in> set validFields) [''foo'', ''toString'', ''Name''] = [] \<and>
   getProfile users_initial 1 (Some ''foo,toString,Name'') =
     Inr (own_properties (hd users_initial))"
proof -
  have nonempty: "''foo,toString,Name'' \<noteq> []" by simp
  have rejected: "\<forall>k \<in> set (split_on CHR '','' ''foo,toString,Name''). k \<notin> set validFields"
    by (simp add: validFields_def)
  from getProfile_rejected_names_full_record [OF find_users_initial nonempty rejected]
  have "getProfile users_initial 1 (Some ''foo,toString,Name'') =
      Inr (own_properties (hd users_initial))"
    by (rule conjunct1)
  moreover have pieces:
    "split_on CHR '','' ''foo,toString,Name'' = [''foo'', ''toString'', ''Name'']"
    by simp
  moreover have "filter (\<lambda>k. k \<in> set validFields) [''foo'', ''toString'', ''Name''] = []"
    by (simp add: validFields_def)
  ultimately show ?thesis
    by (intro conjI find_users_initial nonempty)
qed

section \<open>Properties of validation and lookup\<close>

subsection \<open>Rejected payloads\<close>

lemma invalid_fields_append:
  "invalid_fields (xs @ ys) = invalid_fields xs @ invalid_fields ys"
  by (induction xs rule: invalid_fields.induct) simp_all

lemma invalid_fields_check_field:
  "invalid_fields (check_field rawPayload rule) =
     (if violates rawPayload rule then [field rule] else [])"
  by (simp add: check_field_def violates_def split: option.split)

lemma invalid_fields_checks:
  "invalid_fields (concat (map (check_field rawPayload) rules)) =
     map field (filter (violates rawPayload) rules)"
  by (induction rules) (simp_all add: invalid_fields_append invalid_fields_check_field)

lemma validate_fails_create:
  "validate rawPayload CreateOrderDTO_rules = Inl violations \<Longrightarrow>
     create this now rawPayload = (Inl (VALIDATION_FAILED violations), this)"
  by (simp add: create_def)

text \<open>The three scenarios of the specification, evaluated.\<close>

lemma validate_empty_products:
  "validate [''products'' \<mapsto> JArr [], ''quantity'' \<mapsto> JNum 2,
             ''shipping_address'' \<mapsto> JStr ''X'']
      CreateOrderDTO_rules =
    Inl [INVALID_VALUE ''products'' products_message]"
  by (simp add: validate_def check_field_def CreateOrderDTO_rules_def
        products_rule_def quantity_rule_def shipping_address_rule_def)

lemma validate_zero_quantity:
  "validate [''products'' \<mapsto> JArr [JNum 1], ''quantity'' \<mapsto> JNum 0,
             ''shipping_address'' \<mapsto> JStr ''X'']
      CreateOrderDTO_rules =
    Inl [INVALID_VALUE ''quantity'' quantity_message]"
  by (simp add: validate_def check_field_def CreateOrderDTO_rules_def
        products_rule_def quantity_rule_def shipping_address_rule_def)

lemma create_valid_payload:
  "create OrdersService_init now
      [''products'' \<mapsto> JArr [JNum 1, JNum 2, JNum 3], ''quantity'' \<mapsto> JNum 2,
       ''shipping_address'' \<mapsto> JStr ''X'', ''note'' \<mapsto> JNull] =
    (Inr \<lparr>order_id = 1, order_products = [JNum 1, JNum 2, JNum 3], order_quantity = 2,
          order_shipping_address = ''X'', total_amount = 2000, created_at = now\<rparr>,
     \<lparr>orders = [\<lparr>order_id = 1, order_products = [JNum 1, JNum 2, JNum 3],
          order_quantity = 2,
          order_shipping_address = ''X'', total_amount = 2000, created_at = now\<rparr>],
      currentId = 1\<rparr>)"
  by (simp add: create_def validate_def check_field_def CreateOrderDTO_rules_def
        products_rule_def quantity_rule_def shipping_address_rule_def
        to_CreateOrderDTO_def createOrder_Some OrdersService_init_def binary64_eval)

text \<open>
  The rules look at \<^verbatim>\<open>products\<close> only as an array: a payload whose products are
  not numbers passes, and the record holds them as they came.
\<close>

lemma create_untyped_products:
  "create OrdersService_init now
      [''products'' \<mapsto> JArr [JStr ''a''], ''quantity'' \<mapsto> JNum 2,
       ''shipping_address'' \<mapsto> JStr ''X''] =
    (Inr \<lparr>order_id = 1, order_products = [JStr ''a''], order_quantity = 2,
          order_shipping_address = ''X'', total_amount = 2000, created_at = now\<rparr>,
     \<lparr>orders = [\<lparr>order_id = 1, order_products = [JStr ''a''], order_quantity = 2,
          order_shipping_address = ''X'', total_amount = 2000, created_at = now\<rparr>],
      currentId = 1\<rparr>)"
  by (simp add: create_def validate_def check_field_def CreateOrderDTO_rules_def
        products_rule_def quantity_rule_def shipping_address_rule_def
        to_CreateOrderDTO_def createOrder_Some OrdersService_init_def binary64_eval)

text \<open>
  Claim C5. For every raw payload that violates a rule of the table (a present value that
  fails the type or the predicate of its field, such as an empty \<open>products\<close>, a
  \<open>products\<close> that is not an array, or a \<open>quantity\<close> below \<open>1\<close>), validation returns a violation list whose
  \<open>INVALID_VALUE\<close> entries are for exactly the offending fields, the offending field
  among them; \<^verbatim>\<open>createOrder\<close> is not called, no record is created, and the state of
  the store is unchanged.
\<close>

theorem invalid_payload_rejected:
  assumes "rule \<in> set CreateOrderDTO_rules" and "violates rawPayload rule"
  shows "\<exists>violations.
           validate rawPayload CreateOrderDTO_rules = Inl violations \<and>
           invalid_fields violations =
             map field (filter (violates rawPayload) CreateOrderDTO_rules) \<and>
           field rule \<in> set (invalid_fields violations) \<and>
           create this now rawPayload = (Inl (VALIDATION_FAILED violations), this)"
proof -
  let ?vs = "concat (map (check_field rawPayload) CreateOrderDTO_rules)"
  have fields: "invalid_fields ?vs =
      map field (filter (violates rawPayload) CreateOrderDTO_rules)"
    by (rule invalid_fields_checks)
  have mem: "field rule \<in> set (invalid_fields ?vs)"
    using assms by (simp only: fields) simp
  have nonempty: "\<And>f vs. f \<in> set (invalid_fields vs) \<Longrightarrow> vs \<noteq> []" by auto
  from mem have "?vs \<noteq> []" by (rule nonempty)
  then have failed: "validate rawPayload CreateOrderDTO_rules = Inl ?vs"
    by (simp add: validate_def Let_def)
  then have "create this now rawPayload = (Inl (VALIDATION_FAILED ?vs), this)"
    by (rule validate_fails_create)
  with failed fields mem show ?thesis by blast
qed

text \<open>
  The payload with an empty \<open>products\<close> on the fresh store: one \<open>INVALID_VALUE\<close>
  entry, for \<open>products\<close>, and the store is still fresh.
\<close>

theorem invalid_payload_rejected_witness:
  "products_rule \<in> set CreateOrderDTO_rules \<and>
   violates [''products'' \<mapsto> JArr [], ''quantity'' \<mapsto> JNum 2,
             ''shipping_address'' \<mapsto> JStr ''X''] products_rule \<and>
   create OrdersService_init (Date 0)
     [''products'' \<mapsto> JArr [], ''quantity'' \<mapsto> JNum 2,
      ''shipping_address'' \<mapsto> JStr ''X''] =
     (Inl (VALIDATION_FAILED [INVALID_VALUE ''products'' products_message]),
      OrdersService_init)"
proof -
  let ?raw = "[''products'' \<mapsto> JArr [], ''quantity'' \<mapsto> JNum 2,
               ''shipping_address'' \<mapsto> JStr ''X'']"
  have rule: "products_rule \<in> set CreateOrderDTO_rules"
    by (simp add: CreateOrderDTO_rules_def)
  have bad: "violates ?raw products_rule"
    by (simp add: violates_def products_rule_def)
  from invalid_payload_rejected [OF rule bad, of OrdersService_init "Date 0"]
  obtain violations where
    failed: "validate ?raw CreateOrderDTO_rules = Inl violations" and
    unchanged: "create OrdersService_init (Date 0) ?raw =
      (Inl (VALIDATION_FAILED violations), OrdersService_init)"
    by (elim exE conjE)
  from failed have "violations = [INVALID_VALUE ''products'' products_message]"
    by (simp add: validate_empty_products)
  with unchanged have "create OrdersService_init (Date 0) ?raw =
      (Inl (VALIDATION_FAILED [INVALID_VALUE ''products'' products_message]),
       OrdersService_init)"
    by simp
  then show ?thesis by (intro conjI rule bad)
qed

subsection \<open>Accepted payloads\<close>

lemma check_field_Nil:
  "check_field rawPayload rule = [] \<Longrightarrow> required rule \<Longrightarrow>
     \<exists>v. rawPayload (field rule) = Some v \<and>
         conforms (ftype rule) v \<and> predicate rule v"
  by (auto simp: check_field_def split: option.splits if_splits)

lemma conforms_Array: "conforms ArrayType v \<Longrightarrow> \<exists>xs. v = JArr xs"
  by (cases v) simp_all

lemma conforms_Number: "conforms NumberType v \<Longrightarrow> \<exists>n. v = JNum n"
  by (cases v) simp_all

lemma conforms_String: "conforms StringType v \<Longrightarrow> \<exists>s. v = JStr s"
  by (cases v) simp_all

lemma validate_Inr:
  assumes "validate rawPayload rules = Inr normalized"
  shows "(\<forall>rule \<in> set rules. check_field rawPayload rule = []) \<and>
         normalized = rawPayload |` set (map field rules)"
  using assms by (auto simp: validate_def Let_def split: if_splits)

text \<open>
  A payload that passes the rules of \<^verbatim>\<open>CreateOrderDTO\<close> is normalized to the three
  declared fields, with the declared types and the declared bounds.
\<close>

lemma validate_valid_typed:
  assumes "validate rawPayload CreateOrderDTO_rules = Inr normalized"
  shows "\<exists>xs q a. normalized ''products'' = Some (JArr xs) \<and>
           normalized ''quantity'' = Some (JNum q) \<and>
           normalized ''shipping_address'' = Some (JStr a) \<and>
           dom normalized = {''products'', ''quantity'', ''shipping_address''} \<and>
           1 \<le> length xs \<and> 1 \<le> q"
proof -
  let ?keys = "{''products'', ''quantity'', ''shipping_address''}"
  have keys: "set (map field CreateOrderDTO_rules) = ?keys"
    by (simp add: CreateOrderDTO_rules_def products_rule_def quantity_rule_def
          shipping_address_rule_def)
  from validate_Inr [OF assms] have
    all: "\<forall>rule \<in> set CreateOrderDTO_rules. check_field rawPayload rule = []"
    and "normalized = rawPayload |` set (map field CreateOrderDTO_rules)"
    by (rule conjunct1, rule conjunct2)
  then have normalized: "normalized = rawPayload |` ?keys"
    by (simp only: keys)
  from all have
    none: "check_field rawPayload products_rule = []"
      "check_field rawPayload quantity_rule = []"
      "check_field rawPayload shipping_address_rule = []"
    by (simp_all add: CreateOrderDTO_rules_def)
  from check_field_Nil [OF none(1)] obtain v1 where
    v1: "rawPayload ''products'' = Some v1" "conforms ArrayType v1"
      "predicate products_rule v1" by (auto simp: products_rule_def)
  from check_field_Nil [OF none(2)] obtain v2 where
    v2: "rawPayload ''quantity'' = Some v2" "conforms NumberType v2"
      "predicate quantity_rule v2" by (auto simp: quantity_rule_def)
  from check_field_Nil [OF none(3)] obtain v3 where
    v3: "rawPayload ''shipping_address'' = Some v3" "conforms StringType v3"
    by (auto simp: shipping_address_rule_def)
  from v1 obtain xs where xs: "v1 = JArr xs"
    using conforms_Array by blast
  from v2 obtain q where q: "v2 = JNum q"
    using conforms_Number by blast
  from v3 obtain a where a: "v3 = JStr a"
    using conforms_String by blast
  have len: "1 \<le> length xs" using v1(3) xs by (simp add: products_rule_def)
  have pos: "1 \<le> q" using v2(3) q by (simp add: quantity_rule_def)
  have fields: "normalized ''products'' = Some (JArr xs)"
    "normalized ''quantity'' = Some (JNum q)"
    "normalized ''shipping_address'' = Some (JStr a)"
    using v1(1) v2(1) v3(1) xs q a by (simp_all add: normalized)
  have "?keys \<subseteq> dom rawPayload"
    using v1(1) v2(1) v3(1) by (simp add: domIff)
  then have "dom rawPayload \<inter> ?keys = ?keys" by (rule Int_absorb1)
  then have "dom normalized = ?keys" by (simp only: normalized dom_restrict)
  with fields len pos show ?thesis by blast
qed

text \<open>
  Hence the create operation never reaches the handler of \<^verbatim>\<open>createOrder\<close>: a
  payload that passes validation gives a typed argument, and the call returns a record.
\<close>

lemma create_valid_succeeds:
  assumes "validate rawPayload CreateOrderDTO_rules = Inr normalized"
  shows "\<exists>dto order. to_CreateOrderDTO normalized = Some dto \<and>
           1 \<le> length (products dto) \<and> 1 \<le> quantity dto \<and>
           create this now rawPayload =
             (Inr order, snd (createOrder this now (Some dto))) \<and>
           fst (createOrder this now (Some dto)) = Inr order"
proof -
  from validate_valid_typed [OF assms] obtain xs q a where
    p: "normalized ''products'' = Some (JArr xs)" "normalized ''quantity'' = Some (JNum q)"
      "normalized ''shipping_address'' = Some (JStr a)"
    and ok: "1 \<le> length xs" "1 \<le> q" by (elim exE conjE)
  define dto where "dto = \<lparr>products = xs, quantity = q, shipping_address = a\<rparr>"
  have typed: "to_CreateOrderDTO normalized = Some dto"
    by (simp add: to_CreateOrderDTO_def p dto_def)
  obtain order this1 where run: "createOrder this now (Some dto) = (Inr order, this1)"
    by (simp add: createOrder_Some)
  have "create this now rawPayload = (Inr order, this1)"
    by (simp add: create_def assms typed run)
  moreover have "1 \<le> length (products dto)" "1 \<le> quantity dto"
    using ok by (simp_all add: dto_def)
  ultimately show ?thesis using typed run by auto
qed

subsection \<open>Reading back what was created\<close>

lemma find_snoc_fresh:
  "\<forall>x \<in> set xs. \<not> P x \<Longrightarrow> P y \<Longrightarrow> List.find P (xs @ [y]) = Some y"
  by (induction xs) simp_all

text \<open>
  No stored id exceeds the counter. The property holds on the fresh service and every
  call keeps it, so it holds in every state that the service reaches.
\<close>

lemma createOrder_keeps_bound:
  assumes "\<forall>order \<in> set (orders this). order_id order \<le> currentId this"
  shows "\<forall>order \<in> set (orders (snd (createOrder this now dto))).
           order_id order \<le> currentId (snd (createOrder this now dto))"
  using assms by (cases dto) (auto simp: createOrder_def Let_def)

lemma createOrders_keep_bound:
  assumes "\<forall>order \<in> set (orders this). order_id order \<le> currentId this"
  shows "\<forall>order \<in> set (orders (snd (createOrders this calls))).
           order_id order \<le> currentId (snd (createOrders this calls))"
  using assms
proof (induction calls arbitrary: this)
  case Nil
  then show ?case by simp
next
  case (Cons c calls)
  obtain now d where c: "c = (now, d)" by (cases c)
  have "\<forall>order \<in> set (orders (snd (createOrder this now d))).
           order_id order \<le> currentId (snd (createOrder this now d))"
    using Cons.prems by (rule createOrder_keeps_bound)
  then have "\<forall>order \<in> set (orders (snd (createOrders (snd (createOrder this now d)) calls))).
           order_id order \<le> currentId (snd (createOrders (snd (createOrder this now d)) calls))"
    by (rule Cons.IH)
  then show ?case by (simp add: c split_beta Let_def)
qed

lemma reachable_ids_bounded:
  "\<forall>order \<in> set (orders (snd (createOrders OrdersService_init calls))).
     order_id order \<le> currentId (snd (createOrders OrdersService_init calls))"
  by (rule createOrders_keep_bound) (simp add: OrdersService_init_def)

text \<open>
  Claim C4. For every payload and every state that the store reaches from the fresh
  service by fewer than \<open>2^32 - 1\<close> calls of \<^verbatim>\<open>createOrder\<close> (successful or
  not; the array then has room for one more record and the counter is exact),
  \<^verbatim>\<open>createOrder\<close> returns a record, and \<open>lookup\<close> with the id of this record on
  the resulting state succeeds and yields the same record.
\<close>

theorem insert_then_lookup:
  assumes "length calls < 2 ^ 32 - 1"
  shows "\<exists>order this'.
           createOrder (snd (createOrders OrdersService_init calls)) now (Some dto) =
             (Inr order, this') \<and>
           lookup this' (order_id order) = Inr order"
proof -
  define this where "this = snd (createOrders OrdersService_init calls)"
  define order where "order = \<lparr>order_id = currentId this + 1, order_products = products dto,
          order_quantity = quantity dto, order_shipping_address = shipping_address dto,
          total_amount = binary64 (quantity dto * 1000), created_at = now\<rparr>"
  define this' where "this' = \<lparr>orders = orders this @ [order], currentId = currentId this + 1\<rparr>"
  have bound: "\<forall>x \<in> set (orders this). order_id x \<le> currentId this"
    unfolding this_def by (rule reachable_ids_bounded)
  have run: "createOrder this now (Some dto) = (Inr order, this')"
    by (simp add: createOrder_Some order_def this'_def)
  have "\<forall>x \<in> set (orders this). \<not> order_id x = order_id order"
    using bound by (auto simp: order_def)
  then have "List.find (\<lambda>x. order_id x = order_id order) (orders this @ [order]) = Some order"
    by (rule find_snoc_fresh) simp
  then have "lookup this' (order_id order) = Inr order"
    by (simp add: lookup_def this'_def)
  with run show ?thesis unfolding this_def by blast
qed

text \<open>
  The fresh service after one call: the second call returns a record with id \<open>2\<close>,
  and \<open>lookup\<close> of \<open>2\<close> yields this record, not the first one.
\<close>

theorem insert_then_lookup_witness:
  "length [(Date 0, Some \<lparr>products = [JNum 7], quantity = 1, shipping_address = ''A''\<rparr>)] = 1 \<and>
   (\<exists>order this'.
      createOrder
        (snd (createOrders OrdersService_init
           [(Date 0, Some \<lparr>products = [JNum 7], quantity = 1, shipping_address = ''A''\<rparr>)]))
        (Date 5)
        (Some \<lparr>products = [JNum 1, JNum 2, JNum 3], quantity = 2, shipping_address = ''X''\<rparr>) =
        (Inr order, this') \<and>
      order_id order = 2 \<and> order_shipping_address order = ''X'' \<and>
      lookup this' 2 = Inr order)"
proof -
  let ?calls = "[(Date 0, Some \<lparr>products = [JNum 7], quantity = 1, shipping_address = ''A''\<rparr>)]"
  let ?dto = "\<lparr>products = [JNum 1, JNum 2, JNum 3], quantity = 2, shipping_address = ''X''\<rparr>"
  have few: "length ?calls < 2 ^ 32 - 1" by simp
  from insert_then_lookup [OF few, of "Date 5" ?dto]
  obtain order this' where
    run: "createOrder (snd (createOrders OrdersService_init ?calls)) (Date 5) (Some ?dto) =
      (Inr order, this')" and
    found: "lookup this' (order_id order) = Inr order"
    by (elim exE conjE)
  from run have fields: "order_id order = 2" "order_shipping_address order = ''X''"
    by (auto simp: createOrder_Some OrdersService_init_def)
  with found have "lookup this' 2 = Inr order" by simp
  with run fields have "\<exists>order this'.
      createOrder (snd (createOrders OrdersService_init ?calls)) (Date 5) (Some ?dto) =
        (Inr order, this') \<and>
      order_id order = 2 \<and> order_shipping_address order = ''X'' \<and>
      lookup this' 2 = Inr order"
    by (intro exI conjI)
  moreover have "length ?calls = 1" by simp
  ultimately show ?thesis by (intro conjI)
qed

end
